theory Spec2Isabelle
  imports Main "HOL-Library.Multiset" "HOL-Library.Sublist"
begin

section \<open>Note Connections plugin: the data of \<^verbatim>\<open>src/main.ts\<close>\<close>

text \<open>
  The plugin is one linear workflow over capabilities of its host (the note vault, the
  workspace, notices, the console, \<^verbatim>\<open>fetch\<close>, the clock and the array sort of the
  engine). The workflow is modelled as a function from a host and the settings to the
  ordered list of effects it performs; every capability of the host that the source only
  calls is a field of the record \<open>host\<close>, and every rejection or throw is the \<open>Inl\<close>
  of a sum. A JavaScript string is a \<open>string\<close>, the list of its characters.
\<close>

subsection \<open>Values\<close>

text \<open>The two fields of a \<^verbatim>\<open>TFile\<close> the source looks at or the host identifies it by.\<close>

record TFile =
  path :: string
  basename :: string

text \<open>\<^verbatim>\<open>interface MyPluginSettings { apiKey: string }\<close> and its default.\<close>

record MyPluginSettings =
  apiKey :: string

definition DEFAULT_SETTINGS :: MyPluginSettings where
  "DEFAULT_SETTINGS = \<lparr>apiKey = []\<rparr>"

text \<open>
  A value as \<^verbatim>\<open>response.json()\<close> can give it, and \<^verbatim>\<open>undefined\<close>, which a
  property read can give. A number is held as the text that \<^verbatim>\<open>ToString\<close> gives it
  (\<^verbatim>\<open>0.7\<close> is \<open>JNum ''0.7''\<close>); an object is its own properties, in order.
\<close>

datatype jsval =
    Undefined
  | JNull
  | JBool bool
  | JNum string
  | JStr string
  | JArr "jsval list"
  | JObj "(string \<times> jsval) list"

text \<open>A thrown value: the kind of the error object and its \<^verbatim>\<open>message\<close>.\<close>

datatype js_error =
    Error string
  | TypeError string
  | SyntaxError string

fun message :: "js_error \<Rightarrow> string" where
  "message (Error m) = m"
| "message (TypeError m) = m"
| "message (SyntaxError m) = m"

text \<open>What the source passes to \<^verbatim>\<open>fetch\<close> (\<open>http_method\<close> is the \<^verbatim>\<open>method\<close> of the init object), and what it reads of the response.\<close>

record request =
  url :: string
  http_method :: string
  headers :: "(string \<times> string) list"
  body :: string

record response =
  status :: nat
  json :: "js_error + jsval"

text \<open>
  \<^verbatim>\<open>response.ok\<close> is the getter of the Fetch standard: the status is in the range
  200 to 299.
\<close>

definition ok :: "response \<Rightarrow> bool" where
  "ok r \<longleftrightarrow> 200 \<le> status r \<and> status r \<le> 299"

subsection \<open>The host\<close>

text \<open>
  \<^item> \<open>getMarkdownFiles\<close>: the array \<^verbatim>\<open>this.app.vault.getMarkdownFiles()\<close> returns;
  \<^item> \<open>sort_random\<close>: the array after \<^verbatim>\<open>files.sort(() => 0.5 - Math.random())\<close>; the
    comparator is not consistent, so the order is the engine's choice;
  \<^item> \<open>vault_read\<close>: how the promise of \<^verbatim>\<open>this.app.vault.read(file)\<close> settles;
  \<^item> \<open>first_rejection\<close>: of the reasons of the rejected reads, in index order, the one
    that \<^verbatim>\<open>Promise.all\<close> rejects with (the one that settles first);
  \<^item> \<open>fetch\<close>: how the promise of \<^verbatim>\<open>fetch(url, init)\<close> settles;
  \<^item> \<open>JSON_stringify\<close>: the serialiser of the engine;
  \<^item> \<open>cannot_read\<close>: the message of the \<^verbatim>\<open>TypeError\<close> the engine throws when a
    property (second argument) of \<^verbatim>\<open>null\<close> or \<^verbatim>\<open>undefined\<close> (first argument)
    is read;
  \<^item> \<open>cannot_convert\<close>: the message of the \<^verbatim>\<open>TypeError\<close> the engine throws when an
    object has no primitive value;
  \<^item> \<open>toISOString_now\<close>: \<^verbatim>\<open>new Date().toISOString()\<close>;
  \<^item> \<open>vault_create\<close>: how the promise of \<^verbatim>\<open>this.app.vault.create(path, data)\<close>
    settles;
  \<^item> \<open>openFile\<close>: how the promise of
    \<^verbatim>\<open>this.app.workspace.getLeaf().openFile(file)\<close> settles.
\<close>

record host =
  getMarkdownFiles :: "TFile list"
  sort_random :: "TFile list \<Rightarrow> TFile list"
  vault_read :: "TFile \<Rightarrow> js_error + string"
  first_rejection :: "js_error list \<Rightarrow> js_error"
  fetch :: "request \<Rightarrow> js_error + response"
  JSON_stringify :: "jsval \<Rightarrow> string"
  cannot_read :: "jsval \<Rightarrow> string \<Rightarrow> string"
  cannot_convert :: "jsval \<Rightarrow> string"
  toISOString_now :: string
  vault_create :: "string \<Rightarrow> string \<Rightarrow> js_error + TFile"
  openFile :: "TFile \<Rightarrow> js_error + unit"

section \<open>The sampler\<close>

text \<open>
  \<^verbatim>\<open>Array.prototype.slice(start, end)\<close> on integers: a negative index counts from the
  end of the array, and both ends are clamped to the array.
\<close>

definition slice :: "'a list \<Rightarrow> int \<Rightarrow> int \<Rightarrow> 'a list" where
  "slice xs start stop =
     (let len = int (length xs);
          k = (if start < 0 then max (len + start) 0 else min start len);
          final = (if stop < 0 then max (len + stop) 0 else min stop len)
      in take (nat (max (final - k) 0)) (drop (nat k) xs))"

text \<open>
  \<^verbatim>\<open>
  const files = this.app.vault.getMarkdownFiles();
  const shuffled = files.sort(() => 0.5 - Math.random());
  return shuffled.slice(0, Math.min(count, files.length));
  \<close>
  The sort is in place and returns the array it sorted: after the second line
  \<^verbatim>\<open>files\<close> and \<^verbatim>\<open>shuffled\<close> are the same, sorted, array.
\<close>

definition getRandomNotes :: "host \<Rightarrow> int \<Rightarrow> TFile list" where
  "getRandomNotes h cnt =
     (let files = sort_random h (getMarkdownFiles h);
          shuffled = files
      in slice shuffled 0 (min cnt (int (length files))))"

section \<open>Text\<close>

text \<open>The decimal text of a non-negative integer, as a template literal renders it.\<close>

definition digit_of :: "nat \<Rightarrow> char" where
  "digit_of d = ''0123456789'' ! d"

fun string_of_nat :: "nat \<Rightarrow> string" where
  "string_of_nat n =
     (if n < 10 then [digit_of n]
      else string_of_nat (n div 10) @ [digit_of (n mod 10)])"

declare string_of_nat.simps [simp del]

text \<open>
  What it is for a text to be the decimal numeral of a number: it is not empty, it has
  digits only, it has no leading zero, and the digits, read from the left in base ten,
  give the number.
\<close>

definition is_digit :: "char \<Rightarrow> bool" where
  "is_digit c \<longleftrightarrow> c \<in> set ''0123456789''"

definition digit_value :: "char \<Rightarrow> nat" where
  "digit_value c = length (takeWhile (\<lambda>d. d \<noteq> c) ''0123456789'')"

definition decimal_value :: "string \<Rightarrow> nat" where
  "decimal_value t = foldl (\<lambda>v c. 10 * v + digit_value c) 0 t"

definition decimal_of :: "nat \<Rightarrow> string \<Rightarrow> bool" where
  "decimal_of n t \<longleftrightarrow>
     t \<noteq> [] \<and> list_all is_digit t \<and> (t = ''0'' \<or> hd t \<noteq> CHR ''0'') \<and> decimal_value t = n"

text \<open>
  \<^verbatim>\<open>Array.prototype.join(sep)\<close> on an array of strings: the loop of the language
  standard, which puts the separator before every element but the first.
\<close>

definition join :: "string list \<Rightarrow> string \<Rightarrow> string" where
  "join xs sep = fold (\<lambda>(k, e) R. (if 0 < k then R @ sep else R) @ e) (enumerate 0 xs) []"

text \<open>
  Of a list of results, the errors and the values, each in order.
\<close>

fun rejections :: "('e + 'a) list \<Rightarrow> 'e list" where
  "rejections [] = []"
| "rejections (Inl e # rs) = e # rejections rs"
| "rejections (Inr x # rs) = rejections rs"

fun fulfilments :: "('e + 'a) list \<Rightarrow> 'a list" where
  "fulfilments [] = []"
| "fulfilments (Inl e # rs) = fulfilments rs"
| "fulfilments (Inr x # rs) = x # fulfilments rs"

text \<open>
  \<^verbatim>\<open>ToString\<close>, which a template literal applies to a value it interpolates. An array
  joins the texts of its elements with a comma, \<^verbatim>\<open>null\<close> and \<^verbatim>\<open>undefined\<close>
  elements as the empty text, and throws what the first element that throws does. A
  parsed object has no callable property of its own: if it has an own property
  \<^verbatim>\<open>toString\<close>, that one hides the method of the prototype, \<^verbatim>\<open>valueOf\<close> gives no
  primitive value either, and the conversion throws; otherwise the method of the
  prototype gives \<^verbatim>\<open>[object Object]\<close>.
\<close>

fun ToString :: "host \<Rightarrow> jsval \<Rightarrow> js_error + string" where
  "ToString h Undefined = Inr ''undefined''"
| "ToString h JNull = Inr ''null''"
| "ToString h (JBool b) = Inr (if b then ''true'' else ''false'')"
| "ToString h (JNum t) = Inr t"
| "ToString h (JStr t) = Inr t"
| "ToString h (JArr xs) =
     (let texts = map (\<lambda>x. if x = Undefined \<or> x = JNull then Inr [] else ToString h x) xs in
      case rejections texts of
        [] \<Rightarrow> Inr (join (fulfilments texts) '','')
      | e # es \<Rightarrow> Inl e)"
| "ToString h (JObj ps) =
     (case map_of ps ''toString'' of
        None \<Rightarrow> Inr ''[object Object]''
      | Some x \<Rightarrow> Inl (TypeError (cannot_convert h (JObj ps))))"

section \<open>The prompt builder\<close>

text \<open>The fixed text of the template literal, up to the place of the notes.\<close>

definition prompt_head :: string where
  "prompt_head = ''I am sending you ten random notes from my knowledge database. Your goal is to extract and identify novel, unconventional, and interesting connections between the ideas presented in the notes. These connections should be concise yet insightful and challenge conventional thinking, revealing patterns, relationships, or implications I may not have noticed. Avoid generic or obvious observations and focus on linking the ideas in ways that are intellectually stimulating and potentially actionable. Provide a summary of your findings, highlighting the most unique and valuable insights.\<newline>Notes:\<newline>\<newline>''"

text \<open>
  \<^verbatim>\<open>noteContents.map((content, i) => `Note ${i + 1}:\n${content}\n---`).join('\n')\<close>
  after the fixed text.
\<close>

definition prompt :: "string list \<Rightarrow> string" where
  "prompt noteContents =
     prompt_head @
     join (map (\<lambda>(i, content). ''Note '' @ string_of_nat (i + 1) @ '':\<newline>'' @ content @ ''\<newline>---'')
             (enumerate 0 noteContents)) ''\<newline>''"

text \<open>
  Where the body of note \<open>i\<close> (from 0) starts in the prompt: after the fixed text, after
  the \<open>i\<close> notes before it, each with its label, its body, the twelve characters around
  them (\<^verbatim>\<open>Note\<close> and a blank, the colon, three line breaks, three dashes), and after its
  own label with the seven characters around it.
\<close>

definition body_start :: "string list \<Rightarrow> nat \<Rightarrow> nat" where
  "body_start noteContents i =
     length prompt_head +
     sum_list (map (\<lambda>j. length (string_of_nat (j + 1)) + length (noteContents ! j) + 12) [0..<i]) +
     length (string_of_nat (i + 1)) + 7"

section \<open>The remote analyzer\<close>

text \<open>
  Reading a property by name. The names the source reads (\<^verbatim>\<open>choices\<close>,
  \<^verbatim>\<open>message\<close>, \<^verbatim>\<open>content\<close>) are properties of no prototype, so only an object can
  have them; \<^verbatim>\<open>null\<close> and \<^verbatim>\<open>undefined\<close> throw.
\<close>

definition get_member :: "host \<Rightarrow> jsval \<Rightarrow> string \<Rightarrow> js_error + jsval" where
  "get_member h v p =
     (case v of
        Undefined \<Rightarrow> Inl (TypeError (cannot_read h v p))
      | JNull \<Rightarrow> Inl (TypeError (cannot_read h v p))
      | JObj ps \<Rightarrow> Inr (case map_of ps p of None \<Rightarrow> Undefined | Some x \<Rightarrow> x)
      | _ \<Rightarrow> Inr Undefined)"

text \<open>
  Reading the property \<^verbatim>\<open>[i]\<close>: an element of an array, a character of a string, the
  property of that name of an object.
\<close>

definition get_index :: "host \<Rightarrow> jsval \<Rightarrow> nat \<Rightarrow> js_error + jsval" where
  "get_index h v i =
     (case v of
        Undefined \<Rightarrow> Inl (TypeError (cannot_read h v (string_of_nat i)))
      | JNull \<Rightarrow> Inl (TypeError (cannot_read h v (string_of_nat i)))
      | JArr xs \<Rightarrow> Inr (if i < length xs then xs ! i else Undefined)
      | JStr t \<Rightarrow> Inr (if i < length t then JStr [t ! i] else Undefined)
      | JObj ps \<Rightarrow> Inr (case map_of ps (string_of_nat i) of None \<Rightarrow> Undefined | Some x \<Rightarrow> x)
      | _ \<Rightarrow> Inr Undefined)"

text \<open>\<^verbatim>\<open>data.choices[0].message.content\<close>, read from left to right.\<close>

definition choices_0_message_content :: "host \<Rightarrow> jsval \<Rightarrow> js_error + jsval" where
  "choices_0_message_content h data =
     (case get_member h data ''choices'' of
        Inl e \<Rightarrow> Inl e
      | Inr choices \<Rightarrow>
          (case get_index h choices 0 of
             Inl e \<Rightarrow> Inl e
           | Inr choice \<Rightarrow>
               (case get_member h choice ''message'' of
                  Inl e \<Rightarrow> Inl e
                | Inr msg \<Rightarrow> get_member h msg ''content'')))"

text \<open>
  The effects of a run, in the order they happen: a notice shown, a read of a document
  started, a request sent, a document created, a document opened, an error logged to
  the console.
\<close>

datatype event =
    Notice string
  | VaultRead TFile
  | Fetch request
  | Created string string TFile
  | Opened TFile
  | ConsoleError js_error

text \<open>
  An asynchronous step: the effects it has had when its promise settles, and how the
  promise settles. \<open>await\<close> runs a step and, if it is fulfilled, the rest of the
  function on its value; a rejection is thrown to the caller and the rest is skipped.
\<close>

type_synonym 'a promise = "event list \<times> (js_error + 'a)"

definition await :: "'a promise \<Rightarrow> ('a \<Rightarrow> 'b promise) \<Rightarrow> 'b promise" where
  "await m f =
     (case m of
        (evs, Inl e) \<Rightarrow> (evs, Inl e)
      | (evs, Inr x) \<Rightarrow> (case f x of (evs', r) \<Rightarrow> (evs @ evs', r)))"

definition request_of :: "host \<Rightarrow> MyPluginSettings \<Rightarrow> string \<Rightarrow> request" where
  "request_of h s p =
     \<lparr>url = ''https://api.openai.com/v1/chat/completions'', http_method = ''POST'',
      headers = [(''Authorization'', ''Bearer '' @ apiKey s),
                 (''Content-Type'', ''application/json'')],
      body = JSON_stringify h
               (JObj [(''model'', JStr ''gpt-4''),
                      (''messages'', JArr [JObj [(''role'', JStr ''user''), (''content'', JStr p)]]),
                      (''temperature'', JNum ''0.7'')])\<rparr>"

text \<open>
  \<^verbatim>\<open>
  const response = await fetch(...);
  if (!response.ok) { throw new Error('Failed to get response from GPT-4'); }
  const data = await response.json();
  return data.choices[0].message.content;
  \<close>
\<close>

definition analyzeWithGPT4 :: "host \<Rightarrow> MyPluginSettings \<Rightarrow> string list \<Rightarrow> jsval promise" where
  "analyzeWithGPT4 h s noteContents =
     (let req = request_of h s (prompt noteContents) in
      await ([Fetch req], fetch h req) (\<lambda>response.
        if \<not> ok response then ([], Inl (Error ''Failed to get response from GPT-4''))
        else await ([], json response) (\<lambda>data.
          ([], choices_0_message_content h data))))"

section \<open>The report writer\<close>

text \<open>
  The template literal of \<^verbatim>\<open>formatAnalysis\<close>. The analysis is declared a string; the
  value that arrives is whatever the analyzer returned. The literal first converts it
  with \<^verbatim>\<open>ToString\<close>, which can throw, and then puts the text \<open>formatAnalysis_text\<close>
  together.
\<close>

definition formatAnalysis_text :: "TFile list \<Rightarrow> string \<Rightarrow> string" where
  "formatAnalysis_text files analysis =
     ''# Note Connections Analysis\<newline>\<newline>## Analyzed Notes\<newline>'' @
     join (map (\<lambda>file. ''- [['' @ basename file @ '']]'') files) ''\<newline>'' @
     ''\<newline>\<newline>## Analysis\<newline>'' @
     analysis @
     ''\<newline>''"

definition formatAnalysis :: "host \<Rightarrow> TFile list \<Rightarrow> jsval \<Rightarrow> js_error + string" where
  "formatAnalysis h files analysis =
     (case ToString h analysis of
        Inl e \<Rightarrow> Inl e
      | Inr t \<Rightarrow> Inr (formatAnalysis_text files t))"

section \<open>The run\<close>

text \<open>
  \<^verbatim>\<open>Promise.all(notes.map(file => this.app.vault.read(file)))\<close>: every read is
  started, in order; the result is the bodies by position, or the first rejection.
\<close>

definition read_all :: "host \<Rightarrow> TFile list \<Rightarrow> string list promise" where
  "read_all h notes =
     (let settled = map (vault_read h) notes in
      (map VaultRead notes,
       if rejections settled = [] then Inr (fulfilments settled)
       else Inl (first_rejection h (rejections settled))))"

text \<open>
  \<^verbatim>\<open>`Note Connections Analysis ${new Date().toISOString().split('T')[0]}.md`\<close>: the
  first piece of a split is the text before the first separator.
\<close>

definition report_name :: "host \<Rightarrow> string" where
  "report_name h =
     ''Note Connections Analysis '' @ takeWhile (\<lambda>c. c \<noteq> CHR ''T'') (toISOString_now h) @ ''.md''"

definition create :: "host \<Rightarrow> string \<Rightarrow> string \<Rightarrow> TFile promise" where
  "create h p d =
     (case vault_create h p d of
        Inl e \<Rightarrow> ([], Inl e)
      | Inr file \<Rightarrow> ([Created p d file], Inr file))"

definition open_file :: "host \<Rightarrow> TFile \<Rightarrow> unit promise" where
  "open_file h file =
     (case openFile h file of
        Inl e \<Rightarrow> ([], Inl e)
      | Inr u \<Rightarrow> ([Opened file], Inr u))"

text \<open>
  The body of the \<^verbatim>\<open>try\<close> block of the ribbon callback in \<^verbatim>\<open>onload\<close>. The key
  is a string, and a string is falsy exactly when it is empty. Showing a notice is a
  step that is fulfilled at once. The arguments of \<^verbatim>\<open>vault.create\<close> are evaluated
  before the call: \<^verbatim>\<open>formatAnalysis\<close> can throw, and then nothing is created.
\<close>

definition ribbon_try :: "host \<Rightarrow> MyPluginSettings \<Rightarrow> unit promise" where
  "ribbon_try h s =
     (if apiKey s = [] then
        ([Notice ''Please set your OpenAI API key in the plugin settings''], Inr ())
      else
        let notes = getRandomNotes h 10 in
        if length notes = 0 then
          ([Notice ''No notes found in vault''], Inr ())
        else
          await ([Notice (''Analyzing '' @ string_of_nat (length notes) @ '' notes...'')], Inr ())
            (\<lambda>_.
          await (read_all h notes) (\<lambda>noteContents.
          await (analyzeWithGPT4 h s noteContents) (\<lambda>response.
          await ([], formatAnalysis h notes response) (\<lambda>report.
          await (create h (report_name h) report) (\<lambda>analysisNote.
          open_file h analysisNote))))))"

text \<open>
  The callback with its \<^verbatim>\<open>catch\<close>: what was thrown becomes a notice and a line of
  the console. The result is everything the run did.
\<close>

definition caught :: "js_error \<Rightarrow> event list" where
  "caught error = [Notice (''Error: '' @ message error), ConsoleError error]"

definition ribbon_callback :: "host \<Rightarrow> MyPluginSettings \<Rightarrow> event list" where
  "ribbon_callback h s =
     (case ribbon_try h s of
        (evs, Inr _) \<Rightarrow> evs
      | (evs, Inl error) \<Rightarrow> evs @ caught error)"

text \<open>What a run sent to the network, created and opened.\<close>

fun requests :: "event list \<Rightarrow> request list" where
  "requests [] = []"
| "requests (Fetch r # evs) = r # requests evs"
| "requests (_ # evs) = requests evs"

fun created :: "event list \<Rightarrow> (string \<times> string) list" where
  "created [] = []"
| "created (Created p d _ # evs) = (p, d) # created evs"
| "created (_ # evs) = created evs"

fun opened :: "event list \<Rightarrow> TFile list" where
  "opened [] = []"
| "opened (Opened f # evs) = f # opened evs"
| "opened (_ # evs) = opened evs"

fun notices :: "event list \<Rightarrow> string list" where
  "notices [] = []"
| "notices (Notice t # evs) = t # notices evs"
| "notices (_ # evs) = notices evs"

fun console_errors :: "event list \<Rightarrow> js_error list" where
  "console_errors [] = []"
| "console_errors (ConsoleError e # evs) = e # console_errors evs"
| "console_errors (_ # evs) = console_errors evs"

text \<open>
  A date in the form \<^verbatim>\<open>YYYY-MM-DD\<close>, and the values on which a property read throws.
\<close>

definition is_ymd :: "string \<Rightarrow> bool" where
  "is_ymd d \<longleftrightarrow>
     length d = 10 \<and> d ! 4 = CHR ''-'' \<and> d ! 7 = CHR ''-'' \<and>
     list_all (\<lambda>i. is_digit (d ! i)) [0, 1, 2, 3, 5, 6, 8, 9]"

definition nullish :: "jsval \<Rightarrow> bool" where
  "nullish v \<longleftrightarrow> v = Undefined \<or> v = JNull"


section \<open>The report template as the specification words it\<close>

text \<open>
  A heading, a bullet list of document references by title, a heading, the raw analysis
  text: consecutive bullets are on consecutive lines.
\<close>

fun bullet_list :: "string list \<Rightarrow> string" where
  "bullet_list [] = []"
| "bullet_list [t] = ''- [['' @ t @ '']]''"
| "bullet_list (t # ts) = ''- [['' @ t @ '']]'' @ ''\<newline>'' @ bullet_list ts"

definition report_template :: "string list \<Rightarrow> string \<Rightarrow> string" where
  "report_template titles analysis =
     ''# Note Connections Analysis'' @ ''\<newline>'' @ ''\<newline>'' @
     ''## Analyzed Notes'' @ ''\<newline>'' @
     bullet_list titles @ ''\<newline>'' @ ''\<newline>'' @
     ''## Analysis'' @ ''\<newline>'' @
     analysis @ ''\<newline>''"

section \<open>Example hosts\<close>

text \<open>
  A vault of three documents, an engine whose sort reverses them, a transport that
  answers 200 with the analysis \<^verbatim>\<open>Z\<close>, and a vault that creates what it is asked to.
\<close>

definition example_files :: "TFile list" where
  "example_files =
     [\<lparr>path = ''a.md'', basename = ''A''\<rparr>,
      \<lparr>path = ''b.md'', basename = ''B''\<rparr>,
      \<lparr>path = ''notes/c.md'', basename = ''c''\<rparr>]"

definition completion :: "(string \<times> jsval) list \<Rightarrow> jsval" where
  "completion msg = JObj [(''id'', JStr ''cmpl-1''), (''choices'', JArr [JObj [(''index'', JNum ''0''), (''message'', JObj msg)]])]"

definition example_response :: response where
  "example_response =
     \<lparr>status = 200, json = Inr (completion [(''role'', JStr ''assistant''), (''content'', JStr ''Z'')])\<rparr>"

definition example_host :: host where
  "example_host =
     \<lparr>getMarkdownFiles = example_files,
      sort_random = rev,
      vault_read = (\<lambda>file. Inr (''text of '' @ basename file)),
      first_rejection = hd,
      fetch = (\<lambda>req. Inr example_response),
      JSON_stringify = (\<lambda>v. ''{}''),
      cannot_read = (\<lambda>v p. ''Cannot read properties of undefined (reading '' @ p @ '')''),
      cannot_convert = (\<lambda>v. ''Cannot convert object to primitive value''),
      toISOString_now = ''2026-11-03T10:20:30.000Z'',
      vault_create = (\<lambda>p d. Inr \<lparr>path = p, basename = take (length p - 3) p\<rparr>),
      openFile = (\<lambda>file. Inr ())\<rparr>"

definition example_settings :: MyPluginSettings where
  "example_settings = \<lparr>apiKey = ''sk-test''\<rparr>"

text \<open>
  A transport that answers 500, a transport whose answer has a message without
  \<^verbatim>\<open>content\<close>, an empty vault, and a key of two blanks.
\<close>

definition failing_response :: response where
  "failing_response = \<lparr>status = 500, json = Inl (SyntaxError ''Unexpected token'')\<rparr>"

definition failing_host :: host where
  "failing_host = example_host\<lparr>fetch := \<lambda>req. Inr failing_response\<rparr>"



definition empty_vault_host :: host where
  "empty_vault_host = example_host\<lparr>getMarkdownFiles := []\<rparr>"


section \<open>Properties of the sampler\<close>

lemma slice_from_0: "0 \<le> n \<Longrightarrow> slice xs 0 n = take (nat n) xs"
  by (simp add: slice_def Let_def min_def)

lemma getRandomNotes_take:
  fixes N :: nat
  shows "getRandomNotes h (int N) = take N (sort_random h (getMarkdownFiles h))"
  by (simp add: getRandomNotes_def Let_def slice_from_0 min_def)

text \<open>
  C1. The engine's sort permutes the array it is given. Then, for a vault of \<open>M\<close>
  documents and every requested count \<open>N\<close>, the sampler returns exactly \<open>min N M\<close>
  documents, each of them one of the vault's documents, and all distinct, the documents
  of the vault being distinct.
\<close>

theorem getRandomNotes_sample:
  fixes N :: nat
  assumes perm: "mset (sort_random h (getMarkdownFiles h)) = mset (getMarkdownFiles h)"
  shows "length (getRandomNotes h (int N)) = min N (length (getMarkdownFiles h))
       \<and> set (getRandomNotes h (int N)) \<subseteq> set (getMarkdownFiles h)
       \<and> (distinct (getMarkdownFiles h) \<longrightarrow> distinct (getRandomNotes h (int N)))"
proof -
  let ?files = "getMarkdownFiles h"
  let ?shuffled = "sort_random h ?files"
  have len: "length ?shuffled = length ?files"
    using perm by (metis size_mset)
  have d: "distinct ?shuffled = distinct ?files"
    using perm by (rule mset_eq_imp_distinct_iff)
  have s: "set ?shuffled = set ?files"
    using perm by (metis set_mset_mset)
  have "set (take N ?shuffled) \<subseteq> set ?files"
    using s set_take_subset by fastforce
  with d len show ?thesis
    by (simp add: getRandomNotes_take min.commute)
qed

theorem getRandomNotes_sample_witness:
  "mset (sort_random example_host (getMarkdownFiles example_host)) = mset (getMarkdownFiles example_host)
   \<and> distinct (getMarkdownFiles example_host)
   \<and> length (getMarkdownFiles example_host) = 3
   \<and> length (getRandomNotes example_host (int 2)) = 2
   \<and> set (getRandomNotes example_host (int 2)) \<subseteq> set (getMarkdownFiles example_host)
   \<and> distinct (getRandomNotes example_host (int 2))"
proof -
  have p: "mset (sort_random example_host (getMarkdownFiles example_host)) = mset (getMarkdownFiles example_host)"
    by (simp add: example_host_def)
  have d: "distinct (getMarkdownFiles example_host)"
    by (simp add: example_host_def example_files_def)
  have l: "length (getMarkdownFiles example_host) = 3"
    by (simp add: example_host_def example_files_def)
  show ?thesis
    using getRandomNotes_sample [OF p, of 2] p d l by simp
qed

section \<open>Properties of the texts\<close>

lemma fold_join_step:
  "fold (\<lambda>(k, e) R. (if 0 < k then R @ sep else R) @ e) (enumerate n xs) R0 =
     R0 @ concat (map (\<lambda>(k, e). (if 0 < k then sep else []) @ e) (enumerate n xs))"
  by (induction xs arbitrary: n R0) auto

lemma join_concat:
  "join xs sep = concat (map (\<lambda>(k, e). (if 0 < k then sep else []) @ e) (enumerate 0 xs))"
  by (simp add: join_def fold_join_step)

lemma join_Nil: "join [] sep = []"
  by (simp add: join_def)

lemma enumerate_later:
  "0 < n \<Longrightarrow>
     concat (map (\<lambda>(k, e). (if 0 < k then sep else []) @ e) (enumerate n xs)) =
     concat (map (\<lambda>e. sep @ e) xs)"
  by (induction xs arbitrary: n) auto

lemma join_Cons: "join (x # xs) sep = x @ concat (map (\<lambda>e. sep @ e) xs)"
  by (simp add: join_concat enumerate_later)

lemma join_single: "join [x] sep = x"
  by (simp add: join_Cons)

lemma join_Cons_Cons: "join (x # y # ys) sep = x @ sep @ join (y # ys) sep"
  by (simp add: join_Cons)

lemma join_bullets:
  "join (map (\<lambda>t. ''- [['' @ t @ '']]'') titles) ''\<newline>'' = bullet_list titles"
  by (induction titles rule: bullet_list.induct)
     (simp_all add: join_Nil join_single join_Cons_Cons del: append.simps)

subsection \<open>Decimal numerals\<close>

lemma digit_cases: "k < 10 \<Longrightarrow> k \<in> {0, 1, 2, 3, 4, 5, 6, 7, 8, 9}" for k :: nat
  by auto

lemma digit_of_is_digit: "k < 10 \<Longrightarrow> is_digit (digit_of k)"
  by (drule digit_cases) (auto simp: is_digit_def digit_of_def)

lemma digit_of_zero: "k < 10 \<Longrightarrow> (digit_of k = CHR ''0'') = (k = 0)"
  by (drule digit_cases) (auto simp: digit_of_def)

lemma digit_value_digit_of: "k < 10 \<Longrightarrow> digit_value (digit_of k) = k"
  by (drule digit_cases) (auto simp: digit_of_def digit_value_def)

lemma decimal_value_snoc:
  "decimal_value (t @ [c]) = 10 * decimal_value t + digit_value c"
  by (simp add: decimal_value_def)

lemma decimal_value_digit: "k < 10 \<Longrightarrow> decimal_value [digit_of k] = k"
  by (simp add: decimal_value_def digit_value_digit_of)

lemma string_of_nat_nonempty: "string_of_nat n \<noteq> []"
  by (subst string_of_nat.simps) simp

lemma string_of_nat_digits: "list_all is_digit (string_of_nat n)"
proof (induction n rule: string_of_nat.induct)
  case (1 n)
  show ?case
  proof (cases "n < 10")
    case True
    then show ?thesis
      by (subst string_of_nat.simps) (simp add: digit_of_is_digit)
  next
    case False
    with "1" show ?thesis
      by (subst string_of_nat.simps) (simp add: digit_of_is_digit)
  qed
qed

lemma string_of_nat_value: "decimal_value (string_of_nat n) = n"
proof (induction n rule: string_of_nat.induct)
  case (1 n)
  show ?case
  proof (cases "n < 10")
    case True
    then show ?thesis
      by (subst string_of_nat.simps) (simp add: decimal_value_digit)
  next
    case False
    with "1" show ?thesis
      by (subst string_of_nat.simps) (simp add: decimal_value_snoc digit_value_digit_of)
  qed
qed

lemma string_of_nat_canonical: "string_of_nat n = ''0'' \<or> hd (string_of_nat n) \<noteq> CHR ''0''"
proof (induction n rule: string_of_nat.induct)
  case (1 n)
  show ?case
  proof (cases "n < 10")
    case True
    then show ?thesis
      by (subst (1 2) string_of_nat.simps) (auto simp: digit_of_zero)
  next
    case False
    then have "decimal_value (string_of_nat (n div 10)) \<noteq> 0"
      by (simp add: string_of_nat_value)
    then have "string_of_nat (n div 10) \<noteq> ''0''"
      by (auto simp: decimal_value_def digit_value_def)
    with "1" False have "hd (string_of_nat (n div 10)) \<noteq> CHR ''0''"
      by simp
    with False show ?thesis
      by (subst (1 2) string_of_nat.simps) (simp add: string_of_nat_nonempty)
  qed
qed

lemma string_of_nat_decimal: "decimal_of n (string_of_nat n)"
  unfolding decimal_of_def
  using string_of_nat_nonempty string_of_nat_digits string_of_nat_canonical string_of_nat_value
  by blast


subsection \<open>The layout of the prompt\<close>

lemma prompt_blocks:
  "prompt noteContents =
     prompt_head @
     concat (map (\<lambda>i. (if i = 0 then [] else ''\<newline>'') @
                        ''Note '' @ string_of_nat (i + 1) @ '':\<newline>'' @
                        noteContents ! i @ ''\<newline>---'')
               [0..<length noteContents])"
proof -
  let ?block = "\<lambda>i c. ''Note '' @ string_of_nat (i + 1) @ '':\<newline>'' @ c @ ''\<newline>---''"
  have "join (map (\<lambda>(i, c). ?block i c) (enumerate 0 noteContents)) ''\<newline>'' =
        concat (map (\<lambda>(k, e). (if 0 < k then ''\<newline>'' else []) @ e)
                  (enumerate 0 (map (\<lambda>(i, c). ?block i c) (enumerate 0 noteContents))))"
    by (rule join_concat)
  also have "\<dots> = concat (map (\<lambda>i. (if i = 0 then [] else ''\<newline>'') @ ?block i (noteContents ! i))
                  [0..<length noteContents])"
    by (rule arg_cong [where f = concat], rule nth_equalityI) (simp_all add: nth_enumerate_eq)
  finally show ?thesis
    by (simp add: prompt_def)
qed

lemma string_of_nat_small:
  "string_of_nat (Suc 0) = ''1''"
  "string_of_nat (Suc (Suc 0)) = ''2''"
  "string_of_nat (Suc (Suc (Suc 0))) = ''3''"
  by (subst string_of_nat.simps, simp add: digit_of_def)+

lemma prompt_example:
  "prompt [''a'', [], ''x\<newline>---\<newline>Note 1:\<newline>y''] =
     ''I am sending you ten random notes from my knowledge database. Your goal is to extract and identify novel, unconventional, and interesting connections between the ideas presented in the notes. These connections should be concise yet insightful and challenge conventional thinking, revealing patterns, relationships, or implications I may not have noticed. Avoid generic or obvious observations and focus on linking the ideas in ways that are intellectually stimulating and potentially actionable. Provide a summary of your findings, highlighting the most unique and valuable insights.\<newline>Notes:\<newline>\<newline>Note 1:\<newline>a\<newline>---\<newline>Note 2:\<newline>\<newline>---\<newline>Note 3:\<newline>x\<newline>---\<newline>Note 1:\<newline>y\<newline>---''"
  by (simp add: prompt_def prompt_head_def join_Cons string_of_nat_small)

text \<open>The blocks before note \<open>i\<close>, each with the line break after it.\<close>

lemma blocks_before:
  "concat (map (\<lambda>j. (if j = 0 then [] else ''\<newline>'') @
                     ''Note '' @ string_of_nat (j + 1) @ '':\<newline>'' @ cs ! j @ ''\<newline>---'') [0..<i]) @
   (if i = 0 then [] else ''\<newline>'') =
   concat (map (\<lambda>j. ''Note '' @ string_of_nat (j + 1) @ '':\<newline>'' @ cs ! j @ ''\<newline>---\<newline>'') [0..<i])"
  by (induction i) simp_all

lemma length_blocks_before:
  "length (concat (map (\<lambda>j. ''Note '' @ string_of_nat (j + 1) @ '':\<newline>'' @ cs ! j @ ''\<newline>---\<newline>'') [0..<i])) =
   sum_list (map (\<lambda>j. length (string_of_nat (j + 1)) + length (cs ! j) + 12) [0..<i])"
  by (induction i) simp_all

lemma prompt_split:
  assumes "i < length cs"
  shows "prompt cs =
     (prompt_head @
      concat (map (\<lambda>j. ''Note '' @ string_of_nat (j + 1) @ '':\<newline>'' @ cs ! j @ ''\<newline>---\<newline>'') [0..<i]) @
      ''Note '' @ string_of_nat (i + 1) @ '':\<newline>'') @
     cs ! i @
     (''\<newline>---'' @
      concat (map (\<lambda>j. (if j = 0 then [] else ''\<newline>'') @
                     ''Note '' @ string_of_nat (j + 1) @ '':\<newline>'' @ cs ! j @ ''\<newline>---'') [Suc i..<length cs]))"
proof -
  let ?B = "\<lambda>j. (if j = 0 then [] else ''\<newline>'') @
                     ''Note '' @ string_of_nat (j + 1) @ '':\<newline>'' @ cs ! j @ ''\<newline>---''"
  have "[0..<length cs] = [0..<i] @ i # [Suc i..<length cs]"
    using assms by (metis le0 upt_add_eq_append upt_conv_Cons le_add_diff_inverse less_imp_le_nat add_0)
  then have "concat (map ?B [0..<length cs]) =
      (concat (map ?B [0..<i]) @ (if i = 0 then [] else ''\<newline>'')) @
      ''Note '' @ string_of_nat (i + 1) @ '':\<newline>'' @ cs ! i @ ''\<newline>---'' @
      concat (map ?B [Suc i..<length cs])"
    by simp
  then show ?thesis
    unfolding blocks_before prompt_blocks [of cs] by simp
qed

lemma body_at_start:
  assumes "i < length cs"
  shows "take (length (cs ! i)) (drop (body_start cs i) (prompt cs)) = cs ! i"
proof -
  define pre where "pre = prompt_head @
      concat (map (\<lambda>j. ''Note '' @ string_of_nat (j + 1) @ '':\<newline>'' @ cs ! j @ ''\<newline>---\<newline>'') [0..<i]) @
      ''Note '' @ string_of_nat (i + 1) @ '':\<newline>''"
  have len: "length pre = body_start cs i"
    unfolding pre_def body_start_def length_append length_blocks_before by simp
  obtain rest where "prompt cs = pre @ cs ! i @ rest"
    using prompt_split [OF assms] unfolding pre_def by blast
  then have "drop (length pre) (prompt cs) = cs ! i @ rest"
    by simp
  then show ?thesis
    unfolding len by simp
qed

lemma body_start_ordered: "body_start cs i + length (cs ! i) < body_start cs (Suc i)"
  by (simp add: body_start_def)

text \<open>
  C2. For every sequence of bodies, whatever they contain, the prompt is the fixed text
  followed by one block per body, in the order of the input: block \<open>i\<close> (from 0) is the
  label \<^verbatim>\<open>Note\<close> with the number \<open>i + 1\<close>, a colon, a line break, the body as it is,
  a line break and three dashes; a line break separates a block from the one before.
  The number is written as its decimal numeral. Body \<open>i\<close> stands in the prompt, as it is,
  at the place \<open>body_start\<close> gives it, and that place is behind the end of the body
  before it: each body has its own place, in input order. For the bodies \<^verbatim>\<open>a\<close>, the
  empty string and a string that holds the delimiter and a label, the prompt is the
  text written out below.
\<close>

theorem prompt_layout:
  "prompt noteContents =
     prompt_head @
     concat (map (\<lambda>i. (if i = 0 then [] else ''\<newline>'') @
                        ''Note '' @ string_of_nat (i + 1) @ '':\<newline>'' @
                        noteContents ! i @ ''\<newline>---'')
               [0..<length noteContents])
   \<and> decimal_of n (string_of_nat n)
   \<and> (i < length noteContents \<longrightarrow>
        take (length (noteContents ! i)) (drop (body_start noteContents i) (prompt noteContents)) =
          noteContents ! i)
   \<and> body_start noteContents i + length (noteContents ! i) < body_start noteContents (Suc i)
   \<and> prompt [''a'', [], ''x\<newline>---\<newline>Note 1:\<newline>y''] =
       ''I am sending you ten random notes from my knowledge database. Your goal is to extract and identify novel, unconventional, and interesting connections between the ideas presented in the notes. These connections should be concise yet insightful and challenge conventional thinking, revealing patterns, relationships, or implications I may not have noticed. Avoid generic or obvious observations and focus on linking the ideas in ways that are intellectually stimulating and potentially actionable. Provide a summary of your findings, highlighting the most unique and valuable insights.\<newline>Notes:\<newline>\<newline>Note 1:\<newline>a\<newline>---\<newline>Note 2:\<newline>\<newline>---\<newline>Note 3:\<newline>x\<newline>---\<newline>Note 1:\<newline>y\<newline>---''"
  using prompt_blocks [of noteContents] string_of_nat_decimal [of n]
    body_at_start [of i noteContents] body_start_ordered [of noteContents i] prompt_example
  by blast

theorem prompt_layout_witness:
  "(2::nat) < length [''a'', [], ''x\<newline>---\<newline>Note 1:\<newline>y'']
   \<and> take (length ''x\<newline>---\<newline>Note 1:\<newline>y'')
        (drop (body_start [''a'', [], ''x\<newline>---\<newline>Note 1:\<newline>y''] 2)
           (prompt [''a'', [], ''x\<newline>---\<newline>Note 1:\<newline>y''])) =
       ''x\<newline>---\<newline>Note 1:\<newline>y''
   \<and> decimal_of 10 (string_of_nat 10)"
proof -
  have l: "(2::nat) < length [''a'', [], ''x\<newline>---\<newline>Note 1:\<newline>y'']"
    by simp
  from prompt_layout [of "[''a'', [], ''x\<newline>---\<newline>Note 1:\<newline>y'']" 10 2] l
  have "take (length ([''a'', [], ''x\<newline>---\<newline>Note 1:\<newline>y''] ! 2))
        (drop (body_start [''a'', [], ''x\<newline>---\<newline>Note 1:\<newline>y''] 2)
           (prompt [''a'', [], ''x\<newline>---\<newline>Note 1:\<newline>y''])) =
       [''a'', [], ''x\<newline>---\<newline>Note 1:\<newline>y''] ! 2"
    and d: "decimal_of 10 (string_of_nat 10)"
    by blast+
  then have "take (length ''x\<newline>---\<newline>Note 1:\<newline>y'')
        (drop (body_start [''a'', [], ''x\<newline>---\<newline>Note 1:\<newline>y''] 2)
           (prompt [''a'', [], ''x\<newline>---\<newline>Note 1:\<newline>y''])) =
       ''x\<newline>---\<newline>Note 1:\<newline>y''"
    by (simp only: nth_Cons_numeral nth_Cons_Suc nth_Cons_0 numeral_2_eq_2)
  with l d show ?thesis
    by blast
qed

section \<open>Properties of the report writer\<close>

text \<open>
  C4. For every list of documents and every analysis string the report is the fixed
  template: the first heading, one bullet \<^verbatim>\<open>- [[title]]\<close> per document in order, the
  second heading, the analysis as it is. For the titles A, B and the analysis Z it is
  the text written out below.
\<close>

theorem formatAnalysis_template:
  "formatAnalysis h files (JStr analysis) = Inr (report_template (map basename files) analysis)
   \<and> formatAnalysis h [\<lparr>path = p1, basename = ''A''\<rparr>, \<lparr>path = p2, basename = ''B''\<rparr>] (JStr ''Z'') =
       Inr ''# Note Connections Analysis\<newline>\<newline>## Analyzed Notes\<newline>- [[A]]\<newline>- [[B]]\<newline>\<newline>## Analysis\<newline>Z\<newline>''"
proof -
  have m: "map (\<lambda>file. ''- [['' @ basename file @ '']]'') fs =
           map (\<lambda>t. ''- [['' @ t @ '']]'') (map basename fs)" for fs :: "TFile list"
    by simp
  have g: "formatAnalysis h fs (JStr a) = Inr (report_template (map basename fs) a)" for fs a
    unfolding formatAnalysis_def formatAnalysis_text_def report_template_def m join_bullets by simp
  show ?thesis
    unfolding g by (simp add: report_template_def)
qed

section \<open>Properties of the remote analyzer\<close>

lemma await_Inl [simp]: "await (evs, Inl e) f = (evs, Inl e)"
  by (simp add: await_def)

lemma await_Inr [simp]: "await (evs, Inr x) f = (evs @ fst (f x), snd (f x))"
  by (simp add: await_def split: prod.splits)

lemma fst_await: "fst (await (evs, r) f) = evs @ (case r of Inl e \<Rightarrow> [] | Inr x \<Rightarrow> fst (f x))"
  by (cases r) simp_all

lemma snd_await: "snd (await (evs, r) f) = (case r of Inl e \<Rightarrow> Inl e | Inr x \<Rightarrow> snd (f x))"
  by (cases r) simp_all

lemma analyzeWithGPT4_events:
  "fst (analyzeWithGPT4 h s noteContents) = [Fetch (request_of h s (prompt noteContents))]"
  by (simp add: analyzeWithGPT4_def Let_def fst_await split: sum.splits)

lemma analyzeWithGPT4_result:
  "snd (analyzeWithGPT4 h s noteContents) =
     (case fetch h (request_of h s (prompt noteContents)) of
        Inl e \<Rightarrow> Inl e
      | Inr r \<Rightarrow>
          if \<not> ok r then Inl (Error ''Failed to get response from GPT-4'')
          else (case json r of Inl e \<Rightarrow> Inl e | Inr data \<Rightarrow> choices_0_message_content h data))"
  by (simp add: analyzeWithGPT4_def Let_def snd_await split: sum.splits)

text \<open>
  C3. Let the transport answer the request with a response. If its status is 200 and
  its body is a JSON object whose \<^verbatim>\<open>choices[0].message.content\<close> is the string \<open>X\<close>,
  the analyzer returns exactly \<open>X\<close>. If its status is not in 200 to 299, the analyzer
  throws the error \<^verbatim>\<open>Failed to get response from GPT-4\<close> and returns nothing.
\<close>

theorem analyzeWithGPT4_response:
  assumes "fetch h (request_of h s (prompt noteContents)) = Inr r"
  shows "(status r = 200 \<and> json r = Inr (JObj props)
            \<and> map_of props ''choices'' = Some (JArr (JObj choice # others))
            \<and> map_of choice ''message'' = Some (JObj msg)
            \<and> map_of msg ''content'' = Some (JStr X)
          \<longrightarrow> snd (analyzeWithGPT4 h s noteContents) = Inr (JStr X))
       \<and> (\<not> (200 \<le> status r \<and> status r \<le> 299)
          \<longrightarrow> snd (analyzeWithGPT4 h s noteContents) = Inl (Error ''Failed to get response from GPT-4''))"
  using assms
  by (simp add: analyzeWithGPT4_result ok_def choices_0_message_content_def get_member_def get_index_def)

theorem analyzeWithGPT4_response_witness:
  "fetch example_host (request_of example_host example_settings (prompt [''x''])) = Inr example_response
   \<and> status example_response = 200
   \<and> json example_response =
       Inr (JObj [(''id'', JStr ''cmpl-1''),
                  (''choices'', JArr [JObj [(''index'', JNum ''0''),
                     (''message'', JObj [(''role'', JStr ''assistant''), (''content'', JStr ''Z'')])]])])
   \<and> snd (analyzeWithGPT4 example_host example_settings [''x'']) = Inr (JStr ''Z'')
   \<and> fetch failing_host (request_of failing_host example_settings (prompt [''x''])) =
       Inr failing_response
   \<and> \<not> (200 \<le> status failing_response \<and> status failing_response \<le> 299)
   \<and> snd (analyzeWithGPT4 failing_host example_settings [''x'']) =
       Inl (Error ''Failed to get response from GPT-4'')"
proof -
  have a: "fetch example_host (request_of example_host example_settings (prompt [''x''])) = Inr example_response"
    by (simp add: example_host_def)
  have b: "fetch failing_host (request_of failing_host example_settings (prompt [''x''])) = Inr failing_response"
    by (simp add: failing_host_def)
  have c: "json example_response = Inr (JObj [(''id'', JStr ''cmpl-1''), (''choices'', JArr (JObj [(''index'', JNum ''0''), (''message'', JObj [(''role'', JStr ''assistant''), (''content'', JStr ''Z'')])] # []))])"
    by (simp add: example_response_def completion_def)
  have d: "status example_response = 200" "\<not> (200 \<le> status failing_response \<and> status failing_response \<le> 299)"
    by (simp_all add: example_response_def failing_response_def)
  from analyzeWithGPT4_response [OF a,
      where props = "[(''id'', JStr ''cmpl-1''), (''choices'', JArr [JObj [(''index'', JNum ''0''), (''message'', JObj [(''role'', JStr ''assistant''), (''content'', JStr ''Z'')])]])]"
        and choice = "[(''index'', JNum ''0''), (''message'', JObj [(''role'', JStr ''assistant''), (''content'', JStr ''Z'')])]"
        and others = "[]"
        and msg = "[(''role'', JStr ''assistant''), (''content'', JStr ''Z'')]"
        and X = "''Z''"] c d
  have 1: "snd (analyzeWithGPT4 example_host example_settings [''x'']) = Inr (JStr ''Z'')"
    by simp
  from analyzeWithGPT4_response [OF b] d
  have 2: "snd (analyzeWithGPT4 failing_host example_settings [''x'']) = Inl (Error ''Failed to get response from GPT-4'')"
    by blast
  from a b c d 1 2 show ?thesis by simp
qed

section \<open>Properties of the run\<close>

text \<open>
  C5. With the empty string as API key, a run shows exactly one notice, the one that
  asks for the key, and does nothing else: no document is read, no request is sent, no
  document is created.
\<close>

theorem empty_key_aborts:
  assumes "apiKey s = []"
  shows "ribbon_callback h s = [Notice ''Please set your OpenAI API key in the plugin settings'']
       \<and> notices (ribbon_callback h s) = [''Please set your OpenAI API key in the plugin settings'']
       \<and> created (ribbon_callback h s) = []
       \<and> requests (ribbon_callback h s) = []"
  using assms by (simp add: ribbon_callback_def ribbon_try_def)

theorem empty_key_aborts_witness:
  "apiKey DEFAULT_SETTINGS = []
   \<and> ribbon_callback example_host DEFAULT_SETTINGS =
       [Notice ''Please set your OpenAI API key in the plugin settings'']
   \<and> notices (ribbon_callback example_host DEFAULT_SETTINGS) =
       [''Please set your OpenAI API key in the plugin settings'']
   \<and> created (ribbon_callback example_host DEFAULT_SETTINGS) = []
   \<and> requests (ribbon_callback example_host DEFAULT_SETTINGS) = []"
proof -
  have k: "apiKey DEFAULT_SETTINGS = []"
    by (simp add: DEFAULT_SETTINGS_def)
  from empty_key_aborts [OF k, of example_host] k show ?thesis
    by blast
qed

lemma slice_Nil: "slice [] a b = []"
  by (simp add: slice_def Let_def)

text \<open>
  C6. When the vault has no document (sorting the empty array leaves it empty), the
  sampler returns the empty list for every count, and a run sends no request and
  creates no document; a run that has a key, and so calls the sampler, shows the notice
  \<^verbatim>\<open>No notes found in vault\<close> and does nothing else.
\<close>

theorem empty_vault_aborts:
  assumes "getMarkdownFiles h = []" and "sort_random h [] = []"
  shows "getRandomNotes h cnt = []
       \<and> requests (ribbon_callback h s) = []
       \<and> created (ribbon_callback h s) = []
       \<and> (apiKey s \<noteq> [] \<longrightarrow> ribbon_callback h s = [Notice ''No notes found in vault''])"
proof -
  have g: "getRandomNotes h n = []" for n
    using assms by (simp add: getRandomNotes_def slice_Nil)
  then show ?thesis
    by (simp add: ribbon_callback_def ribbon_try_def)
qed

theorem empty_vault_aborts_witness:
  "getMarkdownFiles empty_vault_host = []
   \<and> sort_random empty_vault_host [] = []
   \<and> apiKey example_settings \<noteq> []
   \<and> getRandomNotes empty_vault_host 10 = []
   \<and> requests (ribbon_callback empty_vault_host example_settings) = []
   \<and> created (ribbon_callback empty_vault_host example_settings) = []
   \<and> ribbon_callback empty_vault_host example_settings = [Notice ''No notes found in vault'']"
proof -
  have k: "apiKey example_settings \<noteq> []"
    by (simp add: example_settings_def)
  have f: "getMarkdownFiles empty_vault_host = []"
    by (simp add: empty_vault_host_def)
  have r: "sort_random empty_vault_host [] = []"
    by (simp add: empty_vault_host_def example_host_def)
  from empty_vault_aborts [OF f r, of 10 example_settings] k f r show ?thesis
    by blast
qed

subsection \<open>Reading the effects of a trace\<close>

lemma requests_append: "requests (xs @ ys) = requests xs @ requests ys"
  by (induction xs rule: requests.induct) simp_all

lemma created_append: "created (xs @ ys) = created xs @ created ys"
  by (induction xs rule: created.induct) simp_all

lemma opened_append: "opened (xs @ ys) = opened xs @ opened ys"
  by (induction xs rule: opened.induct) simp_all

lemma notices_append: "notices (xs @ ys) = notices xs @ notices ys"
  by (induction xs rule: notices.induct) simp_all

lemma console_errors_append: "console_errors (xs @ ys) = console_errors xs @ console_errors ys"
  by (induction xs rule: console_errors.induct) simp_all

lemma reads_only:
  "requests (map VaultRead ns) = []" "created (map VaultRead ns) = []"
  "opened (map VaultRead ns) = []" "notices (map VaultRead ns) = []"
  "console_errors (map VaultRead ns) = []"
  by (induction ns) simp_all

lemmas trace_simps =
  requests_append created_append opened_append notices_append console_errors_append reads_only

lemma caught_only:
  "requests (caught e) = []" "created (caught e) = []" "opened (caught e) = []"
  "notices (caught e) = [''Error: '' @ message e]" "console_errors (caught e) = [e]"
  by (simp_all add: caught_def)

subsection \<open>The trace of a run\<close>

lemma fst_await_gen: "fst (await m f) = fst m @ (case snd m of Inl e \<Rightarrow> [] | Inr x \<Rightarrow> fst (f x))"
  by (cases m) (simp add: fst_await)

lemma snd_await_gen: "snd (await m f) = (case snd m of Inl e \<Rightarrow> Inl e | Inr x \<Rightarrow> snd (f x))"
  by (cases m) (simp add: snd_await)

lemma fst_create: "fst (create h p d) = (case vault_create h p d of Inl e \<Rightarrow> [] | Inr file \<Rightarrow> [Created p d file])"
  by (simp add: create_def split: sum.splits)

lemma snd_create: "snd (create h p d) = vault_create h p d"
  by (simp add: create_def split: sum.splits)

lemma fst_open_file: "fst (open_file h file) = (case openFile h file of Inl e \<Rightarrow> [] | Inr u \<Rightarrow> [Opened file])"
  by (simp add: open_file_def split: sum.splits)

lemma snd_open_file: "snd (open_file h file) = openFile h file"
  by (simp add: open_file_def split: sum.splits)

lemma ribbon_callback_alt:
  "ribbon_callback h s =
     fst (ribbon_try h s) @ (case snd (ribbon_try h s) of Inl e \<Rightarrow> caught e | Inr u \<Rightarrow> [])"
  by (simp add: ribbon_callback_def split: prod.splits sum.splits)

text \<open>The trace of a run that has a key and a sample.\<close>

lemma ribbon_callback_main:
  assumes "apiKey s \<noteq> []" and "getRandomNotes h 10 = notes" and "notes \<noteq> []"
  shows "ribbon_callback h s =
     Notice (''Analyzing '' @ string_of_nat (length notes) @ '' notes...'') # map VaultRead notes @
     (if rejections (map (vault_read h) notes) \<noteq> []
      then caught (first_rejection h (rejections (map (vault_read h) notes)))
      else Fetch (request_of h s (prompt (fulfilments (map (vault_read h) notes)))) #
        (case snd (analyzeWithGPT4 h s (fulfilments (map (vault_read h) notes))) of
           Inl e \<Rightarrow> caught e
         | Inr v \<Rightarrow>
             (case formatAnalysis h notes v of
                Inl e \<Rightarrow> caught e
              | Inr report \<Rightarrow>
                  (case vault_create h (report_name h) report of
                     Inl e \<Rightarrow> caught e
                   | Inr file \<Rightarrow>
                       Created (report_name h) report file #
                       (case openFile h file of Inl e \<Rightarrow> caught e | Inr u \<Rightarrow> [Opened file])))))"
  using assms
  by (simp add: ribbon_callback_alt ribbon_try_def read_all_def Let_def
      fst_await_gen snd_await_gen analyzeWithGPT4_events
      fst_create snd_create fst_open_file snd_open_file
      split: sum.splits)


subsection \<open>The sample, the reads and the name of the report\<close>

lemma getRandomNotes_nonempty:
  assumes "mset (sort_random h (getMarkdownFiles h)) = mset (getMarkdownFiles h)"
    and "getMarkdownFiles h \<noteq> []"
  shows "getRandomNotes h 10 \<noteq> []"
proof -
  have "sort_random h (getMarkdownFiles h) \<noteq> []"
    using assms by (metis mset_zero_iff)
  moreover have "getRandomNotes h 10 = take 10 (sort_random h (getMarkdownFiles h))"
    using getRandomNotes_take [of h 10] by simp
  ultimately show ?thesis by simp
qed

lemma settled_all_fulfilled:
  "rejections (map Inr bodies) = []" "fulfilments (map Inr bodies) = bodies"
  by (induction bodies) simp_all

lemma ymd_chars:
  assumes "is_ymd d" and "c \<in> set d"
  shows "is_digit c \<or> c = CHR ''-''"
proof -
  from assms(2) obtain i where i: "i < length d" "d ! i = c"
    by (auto simp: in_set_conv_nth)
  from assms(1) i(1) have "i \<in> {0, 1, 2, 3, 4, 5, 6, 7, 8, 9}"
    by (auto simp: is_ymd_def)
  with assms(1) i(2) show ?thesis
    by (auto simp: is_ymd_def)
qed

lemma ymd_no_T: "is_ymd d \<Longrightarrow> CHR ''T'' \<notin> set d"
  using ymd_chars [of d "CHR ''T''"] by (auto simp: is_digit_def)

lemma report_name_date:
  assumes "toISOString_now h = date @ ''T'' @ time" and "is_ymd date"
  shows "report_name h = ''Note Connections Analysis '' @ date @ ''.md''"
proof -
  have "takeWhile (\<lambda>c. c \<noteq> CHR ''T'') (date @ CHR ''T'' # time) = date"
    using ymd_no_T [OF assms(2)] by (simp add: takeWhile_tail) blast
  with assms(1) show ?thesis
    by (simp add: report_name_def)
qed

subsection \<open>What the report contains\<close>

lemma sublist_concat_sep:
  "x \<in> set xs \<Longrightarrow> sublist x (concat (map (\<lambda>e. sep @ e) xs))"
proof (induction xs)
  case Nil
  then show ?case by simp
next
  case (Cons a xs)
  show ?case
  proof (cases "x = a")
    case True
    then show ?thesis
      by (simp add: sublist_def) blast
  next
    case False
    with Cons have "sublist x (concat (map (\<lambda>e. sep @ e) xs))" by simp
    then obtain ps ss where "concat (map (\<lambda>e. sep @ e) xs) = ps @ x @ ss"
      by (auto simp: sublist_def)
    then have "concat (map (\<lambda>e. sep @ e) (a # xs)) = (sep @ a @ ps) @ x @ ss"
      by simp
    then show ?thesis
      unfolding sublist_def by blast
  qed
qed

lemma sublist_join: "x \<in> set xs \<Longrightarrow> sublist x (join xs sep)"
proof (cases xs)
  case Nil
  assume "x \<in> set xs"
  with Nil show ?thesis by simp
next
  case (Cons a as)
  assume x: "x \<in> set xs"
  show ?thesis
  proof (cases "x = a")
    case True
    with Cons show ?thesis
      by (simp add: join_Cons)
  next
    case False
    with x Cons have "sublist x (concat (map (\<lambda>e. sep @ e) as))"
      by (simp add: sublist_concat_sep)
    then obtain ps ss where "concat (map (\<lambda>e. sep @ e) as) = ps @ x @ ss"
      by (auto simp: sublist_def)
    then have "join xs sep = (a @ ps) @ x @ ss"
      using Cons by (simp add: join_Cons)
    then show ?thesis
      unfolding sublist_def by blast
  qed
qed

lemma formatAnalysis_string:
  "formatAnalysis h files (JStr analysis) = Inr (formatAnalysis_text files analysis)"
  by (simp add: formatAnalysis_def)

lemma formatAnalysis_text_parts:
  "formatAnalysis_text files t =
     ''# Note Connections Analysis\<newline>\<newline>## Analyzed Notes\<newline>'' @
     join (map (\<lambda>file. ''- [['' @ basename file @ '']]'') files) ''\<newline>'' @
     (''\<newline>\<newline>## Analysis\<newline>'' @ t @ ''\<newline>'')"
  by (simp add: formatAnalysis_text_def)

lemma formatAnalysis_bullet:
  assumes "f \<in> set files"
  shows "sublist (''- [['' @ basename f @ '']]'') (formatAnalysis_text files t)"
proof -
  have "''- [['' @ basename f @ '']]'' \<in> set (map (\<lambda>file. ''- [['' @ basename file @ '']]'') files)"
    using assms by (simp add: image_iff) blast
  then have "sublist (''- [['' @ basename f @ '']]'')
               (join (map (\<lambda>file. ''- [['' @ basename file @ '']]'') files) ''\<newline>'')"
    by (rule sublist_join)
  then obtain ps ss where
    "join (map (\<lambda>file. ''- [['' @ basename file @ '']]'') files) ''\<newline>'' =
       ps @ (''- [['' @ basename f @ '']]'') @ ss"
    unfolding sublist_def by blast
  then have "formatAnalysis_text files t =
      (''# Note Connections Analysis\<newline>\<newline>## Analyzed Notes\<newline>'' @ ps) @
      (''- [['' @ basename f @ '']]'') @
      (ss @ ''\<newline>\<newline>## Analysis\<newline>'' @ t @ ''\<newline>'')"
    unfolding formatAnalysis_text_parts by simp
  then show ?thesis
    unfolding sublist_def by blast
qed

lemma formatAnalysis_analysis: "sublist t (formatAnalysis_text files t)"
proof -
  have "formatAnalysis_text files t =
      (''# Note Connections Analysis\<newline>\<newline>## Analyzed Notes\<newline>'' @
       join (map (\<lambda>file. ''- [['' @ basename file @ '']]'') files) ''\<newline>'' @
       ''\<newline>\<newline>## Analysis\<newline>'') @ t @ ''\<newline>''"
    by (simp add: formatAnalysis_text_def)
  then show ?thesis
    unfolding sublist_def by blast
qed

subsection \<open>Runs that complete\<close>

lemma ribbon_callback_completes:
  assumes "apiKey s \<noteq> []" and "getRandomNotes h 10 = notes" and "notes \<noteq> []"
    and "map (vault_read h) notes = map Inr bodies"
    and "snd (analyzeWithGPT4 h s bodies) = Inr v"
    and "formatAnalysis h notes v = Inr report"
    and "vault_create h (report_name h) report = Inr file"
    and "openFile h file = Inr ()"
  shows "ribbon_callback h s =
           Notice (''Analyzing '' @ string_of_nat (length notes) @ '' notes...'') #
           map VaultRead notes @
           [Fetch (request_of h s (prompt bodies)),
            Created (report_name h) report file,
            Opened file]"
  using ribbon_callback_main [OF assms(1-3)] assms(4-8)
  by (simp add: settled_all_fulfilled)


text \<open>
  C7. A successful run: a key is set, the vault is not empty (and the engine's sort
  permutes it), every read of a sampled document is fulfilled, the transport answers
  with a success status and a JSON body whose \<^verbatim>\<open>choices[0].message.content\<close> is a
  string, the clock reads a date \<^verbatim>\<open>YYYY-MM-DD\<close> before the \<^verbatim>\<open>T\<close>, and the vault
  and the workspace fulfil the creation and the opening. Then exactly one document is
  created; its name is \<^verbatim>\<open>Note Connections Analysis\<close>, a blank, that date and
  \<^verbatim>\<open>.md\<close>; its body is what \<^verbatim>\<open>formatAnalysis\<close> returns, which contains the bullet
  \<^verbatim>\<open>- [[title]]\<close> of every sampled document and the analysis text; and the created
  document is opened as the last effect of the run.
\<close>

theorem successful_run:
  assumes key: "apiKey s \<noteq> []"
    and vault: "getMarkdownFiles h \<noteq> []"
    and perm: "mset (sort_random h (getMarkdownFiles h)) = mset (getMarkdownFiles h)"
    and reads: "map (vault_read h) (getRandomNotes h 10) = map Inr bodies"
    and answer: "fetch h (request_of h s (prompt bodies)) = Inr r" "ok r" "json r = Inr data"
      "choices_0_message_content h data = Inr (JStr analysis)"
    and clock: "toISOString_now h = date @ ''T'' @ time" "is_ymd date"
    and creates: "vault_create h (''Note Connections Analysis '' @ date @ ''.md'')
                    (formatAnalysis_text (getRandomNotes h 10) analysis) = Inr file"
    and opens: "openFile h file = Inr ()"
  shows "formatAnalysis h (getRandomNotes h 10) (JStr analysis) =
           Inr (formatAnalysis_text (getRandomNotes h 10) analysis)
       \<and> ribbon_callback h s =
           Notice (''Analyzing '' @ string_of_nat (length (getRandomNotes h 10)) @ '' notes...'') #
           map VaultRead (getRandomNotes h 10) @
           [Fetch (request_of h s (prompt bodies)),
            Created (''Note Connections Analysis '' @ date @ ''.md'')
              (formatAnalysis_text (getRandomNotes h 10) analysis) file,
            Opened file]
       \<and> created (ribbon_callback h s) =
           [(''Note Connections Analysis '' @ date @ ''.md'',
             formatAnalysis_text (getRandomNotes h 10) analysis)]
       \<and> opened (ribbon_callback h s) = [file]
       \<and> (\<forall>f \<in> set (getRandomNotes h 10).
             sublist (''- [['' @ basename f @ '']]'') (formatAnalysis_text (getRandomNotes h 10) analysis))
       \<and> sublist analysis (formatAnalysis_text (getRandomNotes h 10) analysis)"
proof -
  let ?notes = "getRandomNotes h 10"
  have ne: "?notes \<noteq> []"
    using perm vault by (rule getRandomNotes_nonempty)
  have res: "snd (analyzeWithGPT4 h s bodies) = Inr (JStr analysis)"
    using answer by (simp add: analyzeWithGPT4_result)
  have name: "report_name h = ''Note Connections Analysis '' @ date @ ''.md''"
    using clock by (rule report_name_date)
  have creates': "vault_create h (report_name h) (formatAnalysis_text ?notes analysis) = Inr file"
    using creates unfolding name .
  have trace: "ribbon_callback h s =
           Notice (''Analyzing '' @ string_of_nat (length ?notes) @ '' notes...'') #
           map VaultRead ?notes @
           [Fetch (request_of h s (prompt bodies)),
            Created (''Note Connections Analysis '' @ date @ ''.md'')
              (formatAnalysis_text ?notes analysis) file,
            Opened file]"
    using ribbon_callback_completes [OF key refl ne reads res formatAnalysis_string creates' opens]
    unfolding name .
  have bullets: "\<forall>f \<in> set ?notes. sublist (''- [['' @ basename f @ '']]'') (formatAnalysis_text ?notes analysis)"
    using formatAnalysis_bullet by blast
  have an: "sublist analysis (formatAnalysis_text ?notes analysis)"
    by (rule formatAnalysis_analysis)
  have c: "created (ribbon_callback h s) =
           [(''Note Connections Analysis '' @ date @ ''.md'', formatAnalysis_text ?notes analysis)]"
    unfolding trace by (simp add: trace_simps)
  have ops: "opened (ribbon_callback h s) = [file]"
    unfolding trace by (simp add: trace_simps)
  from formatAnalysis_string [of h ?notes analysis] trace c ops bullets an show ?thesis
    by blast
qed


text \<open>The sample of the example host: its three documents, reversed.\<close>

lemma example_sample:
  "getRandomNotes example_host 10 =
     [\<lparr>path = ''notes/c.md'', basename = ''c''\<rparr>,
      \<lparr>path = ''b.md'', basename = ''B''\<rparr>,
      \<lparr>path = ''a.md'', basename = ''A''\<rparr>]"
  by (simp add: getRandomNotes_def slice_def Let_def example_host_def example_files_def)

theorem successful_run_witness:
  "apiKey example_settings \<noteq> []
   \<and> getMarkdownFiles example_host \<noteq> []
   \<and> mset (sort_random example_host (getMarkdownFiles example_host)) = mset (getMarkdownFiles example_host)
   \<and> map (vault_read example_host) (getRandomNotes example_host 10) = map Inr [''text of c'', ''text of B'', ''text of A'']
   \<and> fetch example_host (request_of example_host example_settings (prompt [''text of c'', ''text of B'', ''text of A''])) = Inr example_response
   \<and> ok example_response
   \<and> json example_response = Inr (completion [(''role'', JStr ''assistant''), (''content'', JStr ''Z'')])
   \<and> choices_0_message_content example_host (completion [(''role'', JStr ''assistant''), (''content'', JStr ''Z'')]) = Inr (JStr ''Z'')
   \<and> toISOString_now example_host = ''2026-11-03'' @ ''T'' @ ''10:20:30.000Z''
   \<and> is_ymd ''2026-11-03''
   \<and> formatAnalysis example_host (getRandomNotes example_host 10) (JStr ''Z'') =
         Inr (formatAnalysis_text (getRandomNotes example_host 10) ''Z'')
   \<and> created (ribbon_callback example_host example_settings) =
         [(''Note Connections Analysis '' @ ''2026-11-03'' @ ''.md'',
           formatAnalysis_text (getRandomNotes example_host 10) ''Z'')]
   \<and> opened (ribbon_callback example_host example_settings) =
         [\<lparr>path = ''Note Connections Analysis 2026-11-03.md'', basename = ''Note Connections Analysis 2026-11-03''\<rparr>]
   \<and> sublist ''- [[c]]'' (formatAnalysis_text (getRandomNotes example_host 10) ''Z'')
   \<and> sublist ''- [[B]]'' (formatAnalysis_text (getRandomNotes example_host 10) ''Z'')
   \<and> sublist ''- [[A]]'' (formatAnalysis_text (getRandomNotes example_host 10) ''Z'')
   \<and> sublist ''Z'' (formatAnalysis_text (getRandomNotes example_host 10) ''Z'')"
proof -
  let ?file = "\<lparr>path = ''Note Connections Analysis 2026-11-03.md'', basename = ''Note Connections Analysis 2026-11-03''\<rparr>"
  have key: "apiKey example_settings \<noteq> []"
    by (simp add: example_settings_def)
  have vault: "getMarkdownFiles example_host \<noteq> []"
    by (simp add: example_host_def example_files_def)
  have perm: "mset (sort_random example_host (getMarkdownFiles example_host)) = mset (getMarkdownFiles example_host)"
    by (simp add: example_host_def)
  have reads: "map (vault_read example_host) (getRandomNotes example_host 10) = map Inr [''text of c'', ''text of B'', ''text of A'']"
    unfolding example_sample by (simp add: example_host_def)
  have answer: "fetch example_host (request_of example_host example_settings (prompt [''text of c'', ''text of B'', ''text of A''])) = Inr example_response"
    by (simp add: example_host_def)
  have okr: "ok example_response"
    by (simp add: ok_def example_response_def)
  have js: "json example_response = Inr (completion [(''role'', JStr ''assistant''), (''content'', JStr ''Z'')])"
    by (simp add: example_response_def)
  have content: "choices_0_message_content example_host (completion [(''role'', JStr ''assistant''), (''content'', JStr ''Z'')]) = Inr (JStr ''Z'')"
    by (simp add: choices_0_message_content_def get_member_def get_index_def completion_def)
  have clock: "toISOString_now example_host = ''2026-11-03'' @ ''T'' @ ''10:20:30.000Z''"
    by (simp add: example_host_def)
  have ymd: "is_ymd ''2026-11-03''"
    by (simp add: is_ymd_def is_digit_def)
  have creates: "vault_create example_host (''Note Connections Analysis '' @ ''2026-11-03'' @ ''.md'')
                    (formatAnalysis_text (getRandomNotes example_host 10) ''Z'') = Inr ?file"
    by (simp add: example_host_def)
  have opens: "openFile example_host ?file = Inr ()"
    by (simp add: example_host_def)
  note run = successful_run [OF key vault perm reads answer okr js content clock ymd creates opens]
  from run have bullets:
    "\<forall>f \<in> set (getRandomNotes example_host 10).
       sublist (''- [['' @ basename f @ '']]'') (formatAnalysis_text (getRandomNotes example_host 10) ''Z'')"
    by blast
  have members:
    "\<lparr>path = ''notes/c.md'', basename = ''c''\<rparr> \<in> set (getRandomNotes example_host 10)"
    "\<lparr>path = ''b.md'', basename = ''B''\<rparr> \<in> set (getRandomNotes example_host 10)"
    "\<lparr>path = ''a.md'', basename = ''A''\<rparr> \<in> set (getRandomNotes example_host 10)"
    by (simp_all add: example_sample)
  have links:
    "sublist ''- [[c]]'' (formatAnalysis_text (getRandomNotes example_host 10) ''Z'')"
    "sublist ''- [[B]]'' (formatAnalysis_text (getRandomNotes example_host 10) ''Z'')"
    "sublist ''- [[A]]'' (formatAnalysis_text (getRandomNotes example_host 10) ''Z'')"
    using bullets [rule_format, OF members(1)] bullets [rule_format, OF members(2)]
      bullets [rule_format, OF members(3)]
    by simp_all
  from run links key vault perm reads answer okr js content clock ymd
  show ?thesis
    by blast
qed

subsection \<open>The conversion of the analysis to text\<close>

lemma ToString_examples:
  "ToString h (JArr [JNum ''1'', JNull, JArr [JStr ''a'', JBool True]]) = Inr ''1,,a,true''"
  "ToString h (JObj [(''a'', JNum ''1'')]) = Inr ''[object Object]''"
  "ToString h (JObj [(''toString'', JNull)]) =
     Inl (TypeError (cannot_convert h (JObj [(''toString'', JNull)])))"
  "ToString h (JArr [JStr ''a'', JObj [(''toString'', JNull)]]) =
     Inl (TypeError (cannot_convert h (JObj [(''toString'', JNull)])))"
  by (simp_all add: join_Cons)

text \<open>
  When the conversion throws, \<^verbatim>\<open>formatAnalysis\<close> throws, and the run creates nothing.
\<close>

lemma formatAnalysis_throws:
  "ToString h v = Inl e \<Longrightarrow> formatAnalysis h files v = Inl e"
  by (simp add: formatAnalysis_def)

lemma format_failure_creates_nothing:
  assumes "apiKey s \<noteq> []" and "getRandomNotes h 10 = notes" and "notes \<noteq> []"
    and "map (vault_read h) notes = map Inr bodies"
    and "snd (analyzeWithGPT4 h s bodies) = Inr v"
    and "ToString h v = Inl e"
  shows "ribbon_callback h s =
           Notice (''Analyzing '' @ string_of_nat (length notes) @ '' notes...'') #
           map VaultRead notes @ Fetch (request_of h s (prompt bodies)) # caught e"
  using ribbon_callback_main [OF assms(1-3)] assms(4-5) formatAnalysis_throws [OF assms(6)]
  by (simp add: settled_all_fulfilled)

subsection \<open>The requests of a run\<close>

lemma requests_run:
  "requests (ribbon_callback h s) =
     (if apiKey s \<noteq> [] \<and> getRandomNotes h 10 \<noteq> [] \<and>
         rejections (map (vault_read h) (getRandomNotes h 10)) = []
      then [request_of h s (prompt (fulfilments (map (vault_read h) (getRandomNotes h 10))))]
      else [])"
proof (cases "apiKey s \<noteq> [] \<and> getRandomNotes h 10 \<noteq> []")
  case True
  then show ?thesis
    by (simp add: ribbon_callback_main [OF _ refl] trace_simps caught_only split: sum.splits)
next
  case False
  then show ?thesis
    by (auto simp: ribbon_callback_def ribbon_try_def)
qed

text \<open>
  C8. Every call of the analyzer sends exactly one request: a POST to the chat
  completions URL whose headers are \<^verbatim>\<open>Authorization: Bearer\<close> with the key and
  \<^verbatim>\<open>Content-Type: application/json\<close>, and whose body is the serialisation of the object
  with the model \<^verbatim>\<open>gpt-4\<close>, one message of role \<^verbatim>\<open>user\<close> whose content is the
  prompt, and the temperature 0.7. A run that reaches the analyzer (a key, a sample,
  every read fulfilled) sends exactly that one request, with the prompt of the bodies
  read.
\<close>

theorem one_post_per_run:
  "fst (analyzeWithGPT4 h s noteContents) =
     [Fetch \<lparr>url = ''https://api.openai.com/v1/chat/completions'', http_method = ''POST'',
             headers = [(''Authorization'', ''Bearer '' @ apiKey s),
                        (''Content-Type'', ''application/json'')],
             body = JSON_stringify h
                      (JObj [(''model'', JStr ''gpt-4''),
                             (''messages'', JArr [JObj [(''role'', JStr ''user''),
                                                        (''content'', JStr (prompt noteContents))]]),
                             (''temperature'', JNum ''0.7'')])\<rparr>]
   \<and> (apiKey s \<noteq> [] \<and> getRandomNotes h 10 \<noteq> [] \<and>
        map (vault_read h) (getRandomNotes h 10) = map Inr bodies
      \<longrightarrow> requests (ribbon_callback h s) =
            [\<lparr>url = ''https://api.openai.com/v1/chat/completions'', http_method = ''POST'',
              headers = [(''Authorization'', ''Bearer '' @ apiKey s),
                         (''Content-Type'', ''application/json'')],
              body = JSON_stringify h
                       (JObj [(''model'', JStr ''gpt-4''),
                              (''messages'', JArr [JObj [(''role'', JStr ''user''),
                                                         (''content'', JStr (prompt bodies))]]),
                              (''temperature'', JNum ''0.7'')])\<rparr>])"
  by (simp add: analyzeWithGPT4_events requests_run request_of_def settled_all_fulfilled)

theorem one_post_per_run_witness:
  "apiKey example_settings \<noteq> [] \<and> getRandomNotes example_host 10 \<noteq> [] \<and>
   map (vault_read example_host) (getRandomNotes example_host 10) = map Inr [''text of c'', ''text of B'', ''text of A'']
   \<and> requests (ribbon_callback example_host example_settings) =
            [\<lparr>url = ''https://api.openai.com/v1/chat/completions'', http_method = ''POST'',
              headers = [(''Authorization'', ''Bearer '' @ apiKey example_settings),
                         (''Content-Type'', ''application/json'')],
              body = JSON_stringify example_host
                       (JObj [(''model'', JStr ''gpt-4''),
                              (''messages'', JArr [JObj [(''role'', JStr ''user''),
                                                         (''content'', JStr (prompt [''text of c'', ''text of B'', ''text of A'']))]]),
                              (''temperature'', JNum ''0.7'')])\<rparr>]"
proof -
  have key: "apiKey example_settings \<noteq> []"
    by (simp add: example_settings_def)
  have ne: "getRandomNotes example_host 10 \<noteq> []"
    by (simp add: example_sample)
  have reads: "map (vault_read example_host) (getRandomNotes example_host 10) = map Inr [''text of c'', ''text of B'', ''text of A'']"
    unfolding example_sample by (simp add: example_host_def)
  from one_post_per_run [of example_host example_settings "[]" "[''text of c'', ''text of B'', ''text of A'']"]
    key ne reads
  show ?thesis
    by blast
qed


subsection \<open>Runs that fail before the report is created\<close>

text \<open>A property read throws exactly on \<^verbatim>\<open>null\<close> and \<^verbatim>\<open>undefined\<close>.\<close>

lemma get_member_throws: "isl (get_member h v p) = nullish v"
  by (cases v) (simp_all add: get_member_def nullish_def)

lemma get_index_throws: "isl (get_index h v i) = nullish v"
  by (cases v) (simp_all add: get_index_def nullish_def)

text \<open>
  So reading \<^verbatim>\<open>data.choices[0].message.content\<close> throws exactly when the data,
  \<^verbatim>\<open>choices\<close>, \<^verbatim>\<open>choices[0]\<close> or \<^verbatim>\<open>message\<close> is \<^verbatim>\<open>null\<close> or \<^verbatim>\<open>undefined\<close>;
  a message that is an object without \<^verbatim>\<open>content\<close> gives \<^verbatim>\<open>undefined\<close>.
\<close>

lemma choices_0_message_content_throws:
  "isl (choices_0_message_content h data) \<longleftrightarrow>
     nullish data \<or>
     (\<exists>choices. get_member h data ''choices'' = Inr choices \<and>
        (nullish choices \<or>
         (\<exists>choice. get_index h choices 0 = Inr choice \<and>
            (nullish choice \<or>
             (\<exists>msg. get_member h choice ''message'' = Inr msg \<and> nullish msg)))))"
proof -
  have m: "get_member h v p = Inl e \<Longrightarrow> nullish v" for v p e
    using get_member_throws [of h v p] by simp
  have i: "get_index h v k = Inl e \<Longrightarrow> nullish v" for v k e
    using get_index_throws [of h v k] by simp
  have m': "get_member h v p = Inr x \<Longrightarrow> \<not> nullish v" for v p x
    using get_member_throws [of h v p] by simp
  have i': "get_index h v k = Inr x \<Longrightarrow> \<not> nullish v" for v k x
    using get_index_throws [of h v k] by simp
  show ?thesis
    unfolding choices_0_message_content_def
    by (auto split: sum.splits simp: get_member_throws dest: m i m' i')
qed

lemma content_of_object_message:
  "get_member h (JObj msg) ''content'' =
     Inr (case map_of msg ''content'' of None \<Rightarrow> Undefined | Some x \<Rightarrow> x)"
  by (simp add: get_member_def)







end
